theory Spec2Isabelle
  imports Main "HOL-Library.Multiset"
begin

section \<open>Data model of \<open>nd_federation_member\<close>\<close>

text \<open>
  The module \<open>plugins/modules/nd_federation_member.py\<close> is one function, \<open>main\<close>. It
  reads three remote collections through the gateway object \<open>nd\<close>, then issues DELETE and
  POST requests. The model threads the gateway object explicitly: its three result fields
  and the list of requests issued so far, in order.

  Strings are byte strings. The state parameter is restricted by the argument
  specification to the three choices.
\<close>

datatype state = Absent | Present | Query

text \<open>One entry of the \<open>clusters\<close> parameter; \<open>cluster.get(key)\<close> may be \<open>None\<close>.\<close>

record cluster =
  cluster_hostname :: "string option"
  cluster_username :: "string option"
  cluster_password :: "string option"
  cluster_login_domain :: "string option"

text \<open>An item of the member collection: \<open>spec.host\<close> and \<open>status.memberID\<close>.\<close>

record member =
  spec_host :: string
  status_memberID :: string

text \<open>An item of the federation collection: \<open>spec.name\<close> and \<open>status.federationID\<close>.\<close>

record federation =
  spec_name :: string
  status_federationID :: string

text \<open>The \<open>spec\<close> of the body of a member POST (lines 240-247).\<close>

record payload_spec =
  host :: "string option"
  userName :: "string option"
  password :: string
  loginDomain :: "string option"

datatype data = Cluster_data payload_spec | Federation_data string

datatype request = GET string | DELETE string | POST string data

text \<open>
  \<open>payload_dict\<close> (line 200) is a dictionary with at most the keys \<open>"DELETE"\<close> and
  \<open>"POST"\<close>; a key is absent until the first append.
\<close>

record payload_dict =
  pd_DELETE :: "string list option"
  pd_POST :: "payload_spec list option"

text \<open>The values the fields \<open>existing\<close>, \<open>previous\<close> and \<open>proposed\<close> take.\<close>

datatype nd_value =
  Empty_dict
  | Items "member list option"
  | Item member
  | Payloads payload_dict

record nd =
  existing :: nd_value
  previous :: nd_value
  proposed :: nd_value
  requests :: "request list"

datatype exn = TypeError | IndexError

datatype outcome = Exit_json | Fail_json string | Raised exn

text \<open>
  The remote system. The names of the items of the cluster collection and the items of
  the federation collection are read once. The member collection is read up to twice, and
  what it holds may depend on the requests made before the read. \<open>None\<close> is a reply
  without \<open>items\<close> (for the federation and member collections, a not-found reply).
  Every request the module issues is taken to be accepted: a rejected one ends the run
  inside the gateway with the requests issued so far.
\<close>

record remote =
  cluster_names :: "string list option"
  federations :: "federation list option"
  members :: "request list \<Rightarrow> member list option"

section \<open>Constants\<close>

definition federation_path :: string where
  "federation_path = ''/nexus/api/federation/v4/federations''"

definition member_path :: string where
  "member_path = ''/nexus/api/federation/v4/members''"

definition clusters_path :: string where
  "clusters_path = ''/nexus/infra/api/platform/v1/clusters''"

definition quote :: string where
  "quote = [CHR 0x27]"

definition required_if_msg :: string where
  "required_if_msg = ''state is present but all of the following are missing: clusters''"

definition query_msg :: string where
  "query_msg = quote @ ''cluster_hostname'' @ quote
     @ '' is required when quering a specific federation member.''"

definition present_msg :: string where
  "present_msg = quote @ ''cluster_hostname'' @ quote @ '', '' @ quote @ ''cluster_username''
     @ quote @ '' and '' @ quote @ ''cluster_password'' @ quote
     @ '' are required when state is present.''"

definition not_primary_msg :: string where
  "not_primary_msg = ''Local cluster is not the primary cluster in the federation. ''
     @ ''Cannot add/remove a member to this federation.''"

section \<open>Python helpers\<close>

text \<open>Truthiness of an optional string and of an optional list.\<close>

fun truthy_str :: "string option \<Rightarrow> bool" where
  "truthy_str None = False"
| "truthy_str (Some s) = (s \<noteq> [])"

fun truthy_list :: "'a list option \<Rightarrow> bool" where
  "truthy_list None = False"
| "truthy_list (Some xs) = (xs \<noteq> [])"

text \<open>
  \<open>"{0}/{1}".format(path, ident)\<close>.
\<close>

definition format_path :: "string \<Rightarrow> string \<Rightarrow> string" where
  "format_path path ident = path @ ''/'' @ ident"

text \<open>
  \<open>base64.b64encode\<close> on the bytes of the password (RFC 4648, with padding).
\<close>

definition b64_alphabet :: string where
  "b64_alphabet = ''ABCDEFGHIJKLMNOPQRSTUVWXYZabcdefghijklmnopqrstuvwxyz0123456789+/''"

definition b64_char :: "nat \<Rightarrow> char" where
  "b64_char n = b64_alphabet ! (n mod 64)"

fun b64_groups :: "nat list \<Rightarrow> string" where
  "b64_groups (a # b # c # rest) =
     [b64_char (a div 4), b64_char ((a mod 4) * 16 + b div 16),
      b64_char ((b mod 16) * 4 + c div 64), b64_char (c mod 64)] @ b64_groups rest"
| "b64_groups [a, b] =
     [b64_char (a div 4), b64_char ((a mod 4) * 16 + b div 16),
      b64_char ((b mod 16) * 4), CHR ''='']"
| "b64_groups [a] =
     [b64_char (a div 4), b64_char ((a mod 4) * 16), CHR ''='', CHR ''='']"
| "b64_groups [] = []"

definition b64encode :: "string \<Rightarrow> string" where
  "b64encode s = b64_groups (map of_char s)"

section \<open>Parameter validation (lines 128-149)\<close>

text \<open>
  The loop over \<open>clusters\<close>; the result is the message of the first \<open>fail_json\<close>, if any.
\<close>

fun validate_loop :: "state \<Rightarrow> cluster list \<Rightarrow> string option" where
  "validate_loop st [] = None"
| "validate_loop st (c # cs) =
     (if st = Query then
        (if \<not> truthy_str (cluster_hostname c) then Some query_msg
         else validate_loop st cs)
      else if st = Present then
        (if \<not> (truthy_str (cluster_hostname c) \<and> truthy_str (cluster_username c)
                \<and> truthy_str (cluster_password c))
         then Some present_msg
         else validate_loop st cs)
      else validate_loop st cs)"

text \<open>
  \<open>required_if\<close> of the argument specification comes first: state present needs the
  parameter \<open>clusters\<close>. Then the loop runs if \<open>clusters\<close> is truthy.
\<close>

definition validate :: "cluster list option \<Rightarrow> state \<Rightarrow> string option" where
  "validate clusters st =
     (if st = Present \<and> clusters = None then Some required_if_msg
      else (case clusters of
              None \<Rightarrow> None
            | Some cs \<Rightarrow> validate_loop st cs))"

section \<open>Observed state (lines 154-179)\<close>

text \<open>
  \<open>next((d for d in federation_obj if d.spec.name == local_cluster_name), None)\<close>.
\<close>

definition federation_info :: "string \<Rightarrow> federation list \<Rightarrow> federation option" where
  "federation_info local_cluster_name fs = find (\<lambda>f. spec_name f = local_cluster_name) fs"

text \<open>
  Lines 160-164: the gate fails when the federation collection is truthy, no entry carries
  the local cluster's name, and the state is not query.
\<close>

definition not_primary :: "string \<Rightarrow> federation list option \<Rightarrow> state \<Rightarrow> bool" where
  "not_primary local_cluster_name federation_obj st =
     (case federation_obj of
        None \<Rightarrow> False
      | Some fs \<Rightarrow> truthy_list (Some fs) \<and> federation_info local_cluster_name fs = None
                    \<and> st \<noteq> Query)"

text \<open>
  Lines 172-175: for each requested cluster the first member with that host is looked up,
  and a hit is assigned to \<open>nd.existing\<close>.
\<close>

definition cluster_info :: "member list \<Rightarrow> cluster \<Rightarrow> member option" where
  "cluster_info ms c = find (\<lambda>m. Some (spec_host m) = cluster_hostname c) ms"

fun query_loop :: "member list \<Rightarrow> cluster list \<Rightarrow> nd_value \<Rightarrow> nd_value" where
  "query_loop ms [] ex = ex"
| "query_loop ms (c # cs) ex =
     (case cluster_info ms c of
        None \<Rightarrow> query_loop ms cs ex
      | Some info \<Rightarrow> query_loop ms cs (Item info))"

text \<open>Lines 170-177, from the initial \<open>nd.existing = {}\<close>.\<close>

definition query_existing ::
  "cluster list option \<Rightarrow> state \<Rightarrow> member list option \<Rightarrow> nd_value" where
  "query_existing clusters st federation_member_obj =
     (if truthy_list clusters \<and> st = Query then
        (case federation_member_obj of
           None \<Rightarrow> Empty_dict
         | Some ms \<Rightarrow>
             (if truthy_list (Some ms)
              then query_loop ms (case clusters of None \<Rightarrow> [] | Some cs \<Rightarrow> cs) Empty_dict
              else Empty_dict))
      else Items federation_member_obj)"

section \<open>State absent (lines 183-196)\<close>

text \<open>Lines 186-189: one DELETE for each member whose host is not the local cluster name.\<close>

fun absent_loop :: "string \<Rightarrow> member list \<Rightarrow> request list \<Rightarrow> request list" where
  "absent_loop local_cluster_name [] tr = tr"
| "absent_loop local_cluster_name (m # ms) tr =
     (if \<not> spec_host m = local_cluster_name
      then absent_loop local_cluster_name ms
             (tr @ [DELETE (format_path member_path (status_memberID m))])
      else absent_loop local_cluster_name ms tr)"

text \<open>
  Lines 191-195, after the loop: the member collection is read again, and the federation
  whose name is the local cluster's is deleted when the collection has length 1.
  \<open>len\<close> of a reply without items and iteration over a missing federation collection
  raise.
\<close>

definition remove_federation ::
  "remote \<Rightarrow> string \<Rightarrow> federation list option \<Rightarrow> request list \<Rightarrow> exn option \<times> request list"
  where
  "remove_federation r local_cluster_name federation_obj tr =
     (case members r tr of
        None \<Rightarrow> (Some TypeError, tr @ [GET member_path])
      | Some ms' \<Rightarrow>
          (if length ms' = 1 then
             (case federation_obj of
                None \<Rightarrow> (Some TypeError, tr @ [GET member_path])
              | Some fs \<Rightarrow>
                  (case federation_info local_cluster_name fs of
                     None \<Rightarrow> (None, tr @ [GET member_path])
                   | Some fi \<Rightarrow>
                       (None, tr @ [GET member_path,
                          DELETE (format_path federation_path (status_federationID fi))])))
           else (None, tr @ [GET member_path])))"

definition absent_state ::
  "remote \<Rightarrow> bool \<Rightarrow> string \<Rightarrow> federation list option \<Rightarrow> member list option \<Rightarrow> nd
     \<Rightarrow> outcome \<times> nd" where
  "absent_state r check_mode local_cluster_name federation_obj federation_member_obj n =
     (case federation_member_obj of
        None \<Rightarrow> (Exit_json, n)
      | Some ms \<Rightarrow>
          (if truthy_list (Some ms) then
             (if \<not> check_mode then
                (case remove_federation r local_cluster_name federation_obj
                        (absent_loop local_cluster_name ms (requests n)) of
                   (Some e, tr) \<Rightarrow> (Raised e, n\<lparr>requests := tr\<rparr>)
                 | (None, tr) \<Rightarrow> (Exit_json, n\<lparr>existing := Empty_dict, requests := tr\<rparr>))
              else (Exit_json, n\<lparr>existing := Empty_dict\<rparr>))
           else (Exit_json, n)))"

section \<open>State present (lines 197-268)\<close>

text \<open>
  Lines 209-212: the inner loop sets \<open>member_exists\<close> when some requested cluster has
  the host of the existing member.
\<close>

definition user_specified :: "cluster list \<Rightarrow> member \<Rightarrow> bool" where
  "user_specified clusters m = list_ex (\<lambda>c. Some (spec_host m) = cluster_hostname c) clusters"

text \<open>
  Lines 206-214. \<open>member_exists\<close> is set to \<open>False\<close> once, before the loop over
  the existing members, and is carried from one iteration to the next.
\<close>

fun remove_loop ::
  "string \<Rightarrow> cluster list \<Rightarrow> member list \<Rightarrow> bool \<Rightarrow> member list \<Rightarrow> member list" where
  "remove_loop local_cluster_name clusters [] member_exists remove_member_list =
     remove_member_list"
| "remove_loop local_cluster_name clusters (m # ms) member_exists remove_member_list =
     (if \<not> spec_host m = local_cluster_name then
        (let member_exists' = (if user_specified clusters m then True else member_exists)
         in remove_loop local_cluster_name clusters ms member_exists'
              (if \<not> member_exists' then remove_member_list @ [m] else remove_member_list))
      else remove_loop local_cluster_name clusters ms member_exists remove_member_list)"

text \<open>Lines 217-224: \<open>found\<close> is reset for every requested cluster.\<close>

definition found :: "member list \<Rightarrow> cluster \<Rightarrow> bool" where
  "found ms c = list_ex (\<lambda>m. Some (spec_host m) = cluster_hostname c) ms"

fun add_loop :: "member list \<Rightarrow> cluster list \<Rightarrow> cluster list \<Rightarrow> cluster list" where
  "add_loop ms [] add_member_list = add_member_list"
| "add_loop ms (c # cs) add_member_list =
     add_loop ms cs (if \<not> found ms c then add_member_list @ [c] else add_member_list)"

text \<open>Lines 198-224: the pair \<open>(remove_member_list, add_member_list)\<close>.\<close>

definition member_lists ::
  "string \<Rightarrow> cluster list \<Rightarrow> member list \<Rightarrow> member list \<times> cluster list" where
  "member_lists local_cluster_name clusters federation_member_obj =
     (if length federation_member_obj \<le> 1 then ([], clusters)
      else (remove_loop local_cluster_name clusters federation_member_obj False [],
            add_loop federation_member_obj clusters []))"

text \<open>The \<open>try: d[k].append(x) except: d[k] = [x]\<close> of lines 232-235 and 250-253.\<close>

definition append_or_init :: "'a list option \<Rightarrow> 'a \<Rightarrow> 'a list option" where
  "append_or_init l x = (case l of None \<Rightarrow> Some [x] | Some xs \<Rightarrow> Some (xs @ [x]))"

text \<open>Lines 227-235: every member of \<open>remove_member_list\<close> is deleted and recorded.\<close>

fun delete_members ::
  "member list \<Rightarrow> payload_dict \<Rightarrow> request list \<Rightarrow> payload_dict \<times> request list" where
  "delete_members [] pd tr = (pd, tr)"
| "delete_members (m # ms) pd tr =
     (let cluster_member_path = format_path member_path (status_memberID m)
      in delete_members ms
           (pd\<lparr>pd_DELETE := append_or_init (pd_DELETE pd) cluster_member_path\<rparr>)
           (tr @ [DELETE cluster_member_path]))"

text \<open>Lines 240-247, for a member whose password is \<open>pw\<close>.\<close>

definition cluster_payload :: "cluster \<Rightarrow> string \<Rightarrow> payload_spec" where
  "cluster_payload m pw =
     \<lparr>host = cluster_hostname m, userName = cluster_username m,
      password = b64encode pw, loginDomain = cluster_login_domain m\<rparr>"

text \<open>
  Lines 238-261: every member of \<open>add_member_list\<close> is recorded and, outside check mode,
  posted; before each post the federation is created when \<open>federation_obj\<close> is falsy.
  \<open>str.encode\<close> of a missing password raises. \<open>nd.sanitize\<close> (line 255) issues no
  request; it prepares \<open>nd.proposed\<close>, which lines 265 and 268 assign anew.
\<close>

fun add_members ::
  "bool \<Rightarrow> federation list option \<Rightarrow> string \<Rightarrow> cluster list \<Rightarrow> payload_dict \<Rightarrow> request list
     \<Rightarrow> exn option \<times> payload_dict \<times> request list" where
  "add_members check_mode federation_obj local_cluster_name [] pd tr = (None, pd, tr)"
| "add_members check_mode federation_obj local_cluster_name (m # ms) pd tr =
     (case cluster_password m of
        None \<Rightarrow> (Some TypeError, pd, tr)
      | Some pw \<Rightarrow>
          (let payload = cluster_payload m pw;
               pd' = pd\<lparr>pd_POST := append_or_init (pd_POST pd) payload\<rparr>
           in if \<not> check_mode then
                add_members check_mode federation_obj local_cluster_name ms pd'
                  (tr @ (if \<not> truthy_list federation_obj
                         then [POST federation_path (Federation_data local_cluster_name)]
                         else [])
                      @ [POST member_path (Cluster_data payload)])
              else add_members check_mode federation_obj local_cluster_name ms pd' tr))"

definition present_state ::
  "remote \<Rightarrow> bool \<Rightarrow> string \<Rightarrow> federation list option \<Rightarrow> member list option
     \<Rightarrow> cluster list \<Rightarrow> nd \<Rightarrow> outcome \<times> nd" where
  "present_state r check_mode local_cluster_name federation_obj federation_member_obj clusters n =
     (case federation_member_obj of
        None \<Rightarrow> (Raised TypeError, n)
      | Some ms \<Rightarrow>
          (case member_lists local_cluster_name clusters ms of
             (remove_member_list, add_member_list) \<Rightarrow>
               (if truthy_list (Some add_member_list) \<or> truthy_list (Some remove_member_list)
                then
                  (case delete_members remove_member_list
                          \<lparr>pd_DELETE = None, pd_POST = None\<rparr> (requests n) of
                     (pd1, tr1) \<Rightarrow>
                       (case add_members check_mode federation_obj local_cluster_name
                               add_member_list pd1 tr1 of
                          (Some e, pd2, tr2) \<Rightarrow> (Raised e, n\<lparr>requests := tr2\<rparr>)
                        | (None, pd2, tr2) \<Rightarrow>
                            (if \<not> check_mode then
                               (Exit_json,
                                n\<lparr>existing := Items (members r tr2),
                                  proposed := Payloads pd2,
                                  requests := tr2 @ [GET member_path]\<rparr>)
                             else
                               (Exit_json,
                                n\<lparr>existing := Payloads pd2, proposed := Payloads pd2,
                                  requests := tr2\<rparr>))))
                else (Exit_json, n))))"

section \<open>\<open>main\<close>\<close>

definition nd_init :: nd where
  "nd_init = \<lparr>existing = Empty_dict, previous = Empty_dict, proposed = Empty_dict,
              requests = []\<rparr>"

text \<open>
  Lines 166-270, once the local cluster name and the federation collection are read and
  the gate is passed. In state present \<open>clusters\<close> is a list, by \<open>required_if\<close>.
\<close>

definition reconcile ::
  "remote \<Rightarrow> cluster list option \<Rightarrow> state \<Rightarrow> bool \<Rightarrow> string \<Rightarrow> federation list option
     \<Rightarrow> request list \<Rightarrow> outcome \<times> nd" where
  "reconcile r clusters st check_mode local_cluster_name federation_obj tr =
     (let federation_member_obj = members r tr;
          ex = query_existing clusters st federation_member_obj;
          n = \<lparr>existing = ex, previous = ex, proposed = Empty_dict,
               requests = tr @ [GET member_path]\<rparr>
      in case st of
           Query \<Rightarrow> (Exit_json, n)
         | Absent \<Rightarrow>
             absent_state r check_mode local_cluster_name federation_obj federation_member_obj n
         | Present \<Rightarrow>
             present_state r check_mode local_cluster_name federation_obj federation_member_obj
               (case clusters of None \<Rightarrow> [] | Some cs \<Rightarrow> cs) n)"

definition main :: "remote \<Rightarrow> cluster list option \<Rightarrow> state \<Rightarrow> bool \<Rightarrow> outcome \<times> nd" where
  "main r clusters st check_mode =
     (case validate clusters st of
        Some msg \<Rightarrow> (Fail_json msg, nd_init)
      | None \<Rightarrow>
          (case cluster_names r of
             None \<Rightarrow> (Raised TypeError, nd_init\<lparr>requests := [GET clusters_path]\<rparr>)
           | Some [] \<Rightarrow> (Raised IndexError, nd_init\<lparr>requests := [GET clusters_path]\<rparr>)
           | Some (local_cluster_name # _) \<Rightarrow>
               (let federation_obj = federations r;
                    tr = [GET clusters_path, GET federation_path]
                in if not_primary local_cluster_name federation_obj st
                   then (Fail_json not_primary_msg, nd_init\<lparr>requests := tr\<rparr>)
                   else reconcile r clusters st check_mode local_cluster_name federation_obj tr)))"

text \<open>The requests that change the remote system.\<close>

fun mutating :: "request \<Rightarrow> bool" where
  "mutating (GET p) = False"
| "mutating (DELETE p) = True"
| "mutating (POST p d) = True"

fun is_DELETE :: "request \<Rightarrow> bool" where
  "is_DELETE (DELETE p) = True"
| "is_DELETE q = False"

fun is_POST :: "request \<Rightarrow> bool" where
  "is_POST (POST p d) = True"
| "is_POST q = False"

section \<open>Projections of the request list\<close>

text \<open>The paths of the DELETE requests and the path and body of the POST requests, in order.\<close>

fun deletes :: "request list \<Rightarrow> string list" where
  "deletes [] = []"
| "deletes (DELETE p # qs) = p # deletes qs"
| "deletes (q # qs) = deletes qs"

fun posts :: "request list \<Rightarrow> (string \<times> data) list" where
  "posts [] = []"
| "posts (POST p d # qs) = (p, d) # posts qs"
| "posts (q # qs) = posts qs"

section \<open>Scenarios\<close>

text \<open>
  A requested cluster and an observed member with given host, a federation named after a
  cluster, and a remote system whose local cluster is \<open>nd1\<close> and whose member collection
  loses the members that were deleted by their identifier.
\<close>

definition requested :: "string \<Rightarrow> cluster" where
  "requested h =
     \<lparr>cluster_hostname = Some h, cluster_username = Some ''admin'',
      cluster_password = Some ''pw'', cluster_login_domain = Some ''DefaultAuth''\<rparr>"

definition observed :: "string \<Rightarrow> string \<Rightarrow> member" where
  "observed h i = \<lparr>spec_host = h, status_memberID = i\<rparr>"

definition federation_of :: "string \<Rightarrow> string \<Rightarrow> federation" where
  "federation_of n i = \<lparr>spec_name = n, status_federationID = i\<rparr>"

definition remaining :: "member list \<Rightarrow> request list \<Rightarrow> member list" where
  "remaining ms tr =
     filter (\<lambda>m. \<not> List.member (deletes tr) (format_path member_path (status_memberID m))) ms"

definition remote_nd1 :: "federation list option \<Rightarrow> member list \<Rightarrow> remote" where
  "remote_nd1 fs ms =
     \<lparr>cluster_names = Some [''nd1''], federations = fs,
      members = (\<lambda>tr. Some (remaining ms tr))\<rparr>"

section \<open>The loops, in closed form\<close>

lemma absent_loop_eq:
  "absent_loop l ms tr =
     tr @ map (\<lambda>m. DELETE (format_path member_path (status_memberID m)))
            (filter (\<lambda>m. spec_host m \<noteq> l) ms)"
  by (induction ms arbitrary: tr) simp_all

lemma delete_members_requests:
  "snd (delete_members ms pd tr) =
     tr @ map (\<lambda>m. DELETE (format_path member_path (status_memberID m))) ms"
  by (induction ms arbitrary: pd tr) (simp_all add: Let_def)

lemma delete_members_dict:
  "fst (delete_members ms pd tr) =
     (if ms = [] then pd
      else pd\<lparr>pd_DELETE := Some ((case pd_DELETE pd of None \<Rightarrow> [] | Some ps \<Rightarrow> ps)
             @ map (\<lambda>m. format_path member_path (status_memberID m)) ms)\<rparr>)"
  by (induction ms arbitrary: pd tr) (auto simp: Let_def append_or_init_def split: option.splits)

lemma add_members_posts:
  "\<exists>ps. snd (snd (add_members c fo l ms pd tr)) = tr @ ps \<and> list_all is_POST ps"
proof (induction ms arbitrary: pd tr)
  case Nil
  show ?case by simp
next
  case (Cons m ms)
  show ?case
  proof (cases "cluster_password m")
    case None
    then show ?thesis by simp
  next
    case (Some pw)
    show ?thesis
    proof (cases c)
      case True
      then show ?thesis using Some Cons.IH by (simp add: Let_def)
    next
      case False
      let ?new = "(if \<not> truthy_list fo then [POST federation_path (Federation_data l)] else [])
                    @ [POST member_path (Cluster_data (cluster_payload m pw))]"
      obtain ps where ps: "snd (snd (add_members c fo l ms
           (pd\<lparr>pd_POST := append_or_init (pd_POST pd) (cluster_payload m pw)\<rparr>) (tr @ ?new)))
           = (tr @ ?new) @ ps" "list_all is_POST ps"
        using Cons.IH by blast
      have "list_all is_POST (?new @ ps)" using ps(2) by simp
      moreover have "snd (snd (add_members c fo l (m # ms) pd tr)) = tr @ (?new @ ps)"
        using Some False ps(1) by (simp add: Let_def)
      ultimately show ?thesis by blast
    qed
  qed
qed

lemma validate_loop_present:
  "validate_loop Present cs = None \<Longrightarrow>
     list_all (\<lambda>c. truthy_str (cluster_hostname c) \<and> truthy_str (cluster_username c)
                    \<and> truthy_str (cluster_password c)) cs"
  by (induction cs) (auto split: if_splits)

lemma add_members_valid:
  "list_all (\<lambda>c. truthy_str (cluster_password c)) ms \<Longrightarrow>
   add_members c fo l ms pd tr =
     (None,
      (if ms = [] then pd
       else pd\<lparr>pd_POST := Some ((case pd_POST pd of None \<Rightarrow> [] | Some ps \<Rightarrow> ps)
              @ map (\<lambda>m. cluster_payload m (the (cluster_password m))) ms)\<rparr>),
      tr @ (if c then []
            else concat (map (\<lambda>m.
                   (if \<not> truthy_list fo
                    then [POST federation_path (Federation_data l)] else [])
                   @ [POST member_path
                        (Cluster_data (cluster_payload m (the (cluster_password m))))]) ms)))"
proof (induction ms arbitrary: pd tr)
  case Nil
  show ?case by simp
next
  case (Cons m ms)
  from Cons.prems obtain pw where pw: "cluster_password m = Some pw"
    by (cases "cluster_password m") simp_all
  from Cons.prems have rest: "list_all (\<lambda>c. truthy_str (cluster_password c)) ms" by simp
  show ?case
  proof (cases c)
    case True
    then show ?thesis
      using pw Cons.IH [OF rest]
      by (simp add: Let_def append_or_init_def split: option.splits)
  next
    case False
    then show ?thesis
      using pw Cons.IH [OF rest]
      by (simp add: Let_def append_or_init_def split: option.splits)
  qed
qed

lemma remove_loop_True:
  "remove_loop l cs ms True acc = acc"
  by (induction ms arbitrary: acc) (simp_all add: Let_def)

lemma remove_loop_eq:
  "remove_loop l cs ms False acc =
     acc @ filter (\<lambda>m. spec_host m \<noteq> l)
             (takeWhile (\<lambda>m. spec_host m = l \<or> \<not> user_specified cs m) ms)"
  by (induction ms arbitrary: acc) (simp_all add: Let_def remove_loop_True)

lemma add_loop_eq:
  "add_loop ms cs acc = acc @ filter (\<lambda>c. \<not> found ms c) cs"
  by (induction cs arbitrary: acc) simp_all

lemma deletes_append: "deletes (xs @ ys) = deletes xs @ deletes ys"
  by (induction xs rule: deletes.induct) simp_all

lemma posts_append: "posts (xs @ ys) = posts xs @ posts ys"
  by (induction xs rule: posts.induct) simp_all

section \<open>Evaluation and case analysis of \<open>main\<close>\<close>

lemmas scen = requested_def observed_def federation_of_def remaining_def remote_nd1_def
lemmas defs = main_def reconcile_def nd_init_def validate_def not_primary_def federation_info_def
  present_state_def absent_state_def member_lists_def remove_federation_def query_existing_def
  cluster_info_def user_specified_def found_def append_or_init_def cluster_payload_def format_path_def
  member_path_def federation_path_def clusters_path_def


lemma main_reconcile:
  "validate clusters st = None \<Longrightarrow> cluster_names r = Some (l # rest)
   \<Longrightarrow> \<not> not_primary l (federations r) st
   \<Longrightarrow> main r clusters st c =
        reconcile r clusters st c l (federations r) [GET clusters_path, GET federation_path]"
  by (simp add: main_def)

lemma main_early:
  "validate clusters st \<noteq> None \<or> (\<forall>l rest. cluster_names r \<noteq> Some (l # rest))
     \<or> (\<exists>l rest. cluster_names r = Some (l # rest) \<and> not_primary l (federations r) st)
   \<Longrightarrow> filter mutating (requests (snd (main r clusters st c))) = []"
  by (auto simp: main_def nd_init_def split: option.splits list.splits)

lemma main_cases:
  obtains (early) "filter mutating (requests (snd (main r clusters st c))) = []"
  | (run) l rest where "validate clusters st = None"
      "cluster_names r = Some (l # rest)" "\<not> not_primary l (federations r) st"
proof (cases "validate clusters st = None \<and> (\<exists>l rest. cluster_names r = Some (l # rest)
          \<and> \<not> not_primary l (federations r) st)")
  case True
  then show ?thesis using run by blast
next
  case False
  then have "validate clusters st \<noteq> None \<or> (\<forall>l rest. cluster_names r \<noteq> Some (l # rest))
     \<or> (\<exists>l rest. cluster_names r = Some (l # rest) \<and> not_primary l (federations r) st)"
    by auto
  then show ?thesis using early main_early by blast
qed

lemma no_mutation_split:
  assumes "filter mutating tr = []"
  shows "list_all (\<lambda>q. \<not> is_POST q) tr" and "list_all (\<lambda>q. \<not> is_DELETE q) tr"
proof -
  have m: "\<forall>q\<in>set tr. \<not> mutating q" using assms by (simp add: filter_empty_conv)
  show "list_all (\<lambda>q. \<not> is_POST q) tr"
    unfolding list_all_iff
  proof
    fix q assume "q \<in> set tr"
    then have "\<not> mutating q" using m by blast
    then show "\<not> is_POST q" by (cases q) simp_all
  qed
  show "list_all (\<lambda>q. \<not> is_DELETE q) tr"
    unfolding list_all_iff
  proof
    fix q assume "q \<in> set tr"
    then have "\<not> mutating q" using m by blast
    then show "\<not> is_DELETE q" by (cases q) simp_all
  qed
qed

lemma is_DELETE_not_POST: "is_DELETE q \<Longrightarrow> \<not> is_POST q"
  by (cases q) simp_all

lemma present_state_requests:
  "\<exists>ds ps gs. requests (snd (present_state r c l fo fmo cs n)) = requests n @ ds @ ps @ gs
     \<and> list_all is_DELETE ds \<and> list_all is_POST ps \<and> filter mutating gs = []"
proof (cases fmo)
  case None
  have "requests (snd (present_state r c l fo fmo cs n)) = requests n @ [] @ [] @ []"
    using None by (simp add: present_state_def)
  moreover have "list_all is_DELETE []" "list_all is_POST []" "filter mutating [] = []"
    by simp_all
  ultimately show ?thesis by blast
next
  case (Some ms)
  obtain rl al where ml: "member_lists l cs ms = (rl, al)" by (cases "member_lists l cs ms")
  obtain pd1 tr1 where dm: "delete_members rl \<lparr>pd_DELETE = None, pd_POST = None\<rparr> (requests n) = (pd1, tr1)"
    by (cases "delete_members rl \<lparr>pd_DELETE = None, pd_POST = None\<rparr> (requests n)")
  let ?ds = "map (\<lambda>m. DELETE (format_path member_path (status_memberID m))) rl"
  have tr1: "tr1 = requests n @ ?ds"
    using delete_members_requests [of rl "\<lparr>pd_DELETE = None, pd_POST = None\<rparr>" "requests n"] dm
    by simp
  have ds: "list_all is_DELETE ?ds" by (simp add: list_all_iff)
  obtain e pd2 tr2 where am: "add_members c fo l al pd1 tr1 = (e, pd2, tr2)"
    by (cases "add_members c fo l al pd1 tr1")
  obtain ps where ps: "tr2 = tr1 @ ps" "list_all is_POST ps"
    using add_members_posts [of c fo l al pd1 tr1] am by auto
  consider (a) "requests (snd (present_state r c l fo fmo cs n)) = requests n @ [] @ [] @ []"
    | (b) "requests (snd (present_state r c l fo fmo cs n)) = requests n @ ?ds @ ps @ []"
    | (c) "requests (snd (present_state r c l fo fmo cs n)) = requests n @ ?ds @ ps @ [GET member_path]"
  proof (cases "truthy_list (Some al) \<or> truthy_list (Some rl)")
    case False
    then have "present_state r c l fo fmo cs n = (Exit_json, n)"
      using Some ml unfolding present_state_def by simp
    then show ?thesis using a by simp
  next
    case True
    show ?thesis
    proof (cases e)
      case (Some ex)
      have "present_state r c l fo fmo cs n = (Raised ex, n\<lparr>requests := tr2\<rparr>)"
        using \<open>fmo = Some ms\<close> ml True dm am Some unfolding present_state_def by simp
      then show ?thesis using b ps(1) tr1 by simp
    next
      case None
      show ?thesis
      proof (cases c)
        case True
        have "requests (snd (present_state r c l fo fmo cs n)) = tr2"
          using \<open>fmo = Some ms\<close> ml \<open>truthy_list (Some al) \<or> truthy_list (Some rl)\<close> dm am None True
          unfolding present_state_def by simp
        then show ?thesis using b ps(1) tr1 by simp
      next
        case False
        have "requests (snd (present_state r c l fo fmo cs n)) = tr2 @ [GET member_path]"
          using \<open>fmo = Some ms\<close> ml \<open>truthy_list (Some al) \<or> truthy_list (Some rl)\<close> dm am None False
          unfolding present_state_def by simp
        then show ?thesis using c ps(1) tr1 by simp
      qed
    qed
  qed
  then show ?thesis
  proof cases
    case a
    moreover have "list_all is_DELETE []" "list_all is_POST []" "filter mutating [] = []"
      by simp_all
    ultimately show ?thesis by blast
  next
    case b
    moreover have "filter mutating [] = []" by simp
    ultimately show ?thesis using ds ps(2) by blast
  next
    case c
    moreover have "filter mutating [GET member_path] = []" by simp
    ultimately show ?thesis using ds ps(2) by blast
  qed
qed

lemma main_present_requests:
  "\<exists>xs ys. requests (snd (main r clusters Present c)) = xs @ ys
     \<and> list_all (\<lambda>q. \<not> is_POST q) xs \<and> list_all (\<lambda>q. \<not> is_DELETE q) ys"
proof (cases r clusters Present c rule: main_cases)
  case early
  let ?tr = "requests (snd (main r clusters Present c))"
  have "?tr = ?tr @ []" "list_all (\<lambda>q. \<not> is_POST q) ?tr" "list_all (\<lambda>q. \<not> is_DELETE q) []"
    using no_mutation_split(1) [OF early] by simp_all
  then show ?thesis by blast
next
  case (run l rest)
  let ?tr = "requests (snd (main r clusters Present c))"
  let ?init = "[GET clusters_path, GET federation_path]"
  let ?fmo = "members r ?init"
  let ?n = "\<lparr>existing = query_existing clusters Present ?fmo,
             previous = query_existing clusters Present ?fmo, proposed = Empty_dict,
             requests = ?init @ [GET member_path]\<rparr>"
  let ?cs = "case clusters of None \<Rightarrow> [] | Some cs \<Rightarrow> cs"
  have m: "main r clusters Present c = present_state r c l (federations r) ?fmo ?cs ?n"
    using main_reconcile [OF run] by (simp add: reconcile_def Let_def)
  obtain ds ps gs where s0:
      "requests (snd (present_state r c l (federations r) ?fmo ?cs ?n)) = requests ?n @ ds @ ps @ gs"
      and s': "list_all is_DELETE ds" "list_all is_POST ps" "filter mutating gs = []"
    using present_state_requests [of r c l "federations r" ?fmo ?cs ?n] by blast
  have s1: "?tr = requests ?n @ ds @ ps @ gs" unfolding m by (rule s0)
  note s = s1 s'
  have a: "list_all (\<lambda>q. \<not> is_POST q) (requests ?n @ ds)"
    using s(2) by (auto simp: list_all_iff dest: is_DELETE_not_POST)
  have b: "list_all (\<lambda>q. \<not> is_DELETE q) (ps @ gs)"
    using s(3) no_mutation_split(2) [OF s(4)] by (auto simp: list_all_iff dest: is_DELETE_not_POST)
  have "?tr = (requests ?n @ ds) @ (ps @ gs)" using s(1) by simp
  then show ?thesis using a b by blast
qed

section \<open>State query\<close>

text \<open>
  C10. Whatever the remote system holds, whatever the cluster list and whether or not
  check mode is on, a run with state query issues no POST and no DELETE: the requests
  it has made when it ends are reads only.
\<close>

theorem query_no_mutation:
  "filter mutating (requests (snd (main r clusters Query check_mode))) = []"
  by (simp add: main_def reconcile_def nd_init_def Let_def split: option.splits list.splits)

section \<open>State present\<close>

text \<open>
  C6. In the request list of a run with state present, every DELETE request stands at a
  smaller index than every POST request: all removals are issued before any addition
  (and before any creation of the federation).
\<close>

theorem removals_before_additions:
  assumes "tr = requests (snd (main r clusters Present check_mode))"
    and "i < length tr" and "j < length tr"
    and "is_DELETE (tr ! i)" and "is_POST (tr ! j)"
  shows "i < j"
proof -
  obtain xs ys where s: "tr = xs @ ys" "list_all (\<lambda>q. \<not> is_POST q) xs"
      "list_all (\<lambda>q. \<not> is_DELETE q) ys"
    using main_present_requests [of r clusters check_mode] assms(1) by auto
  have "i < length xs"
  proof (rule ccontr)
    assume "\<not> i < length xs"
    then have "tr ! i = ys ! (i - length xs)" "i - length xs < length ys"
      using s(1) assms(2) by (auto simp: nth_append)
    then show False using s(3) assms(4) by (auto simp: list_all_length)
  qed
  moreover have "length xs \<le> j"
  proof (rule ccontr)
    assume "\<not> length xs \<le> j"
    then have "tr ! j = xs ! j" "j < length xs"
      using s(1) by (auto simp: nth_append)
    then show False using s(2) assms(5) by (auto simp: list_all_length)
  qed
  ultimately show ?thesis by simp
qed

text \<open>
  The run for the desired member \<open>A\<close> against the observed members \<open>nd1\<close> (local)
  and \<open>C\<close>: the removal of \<open>C\<close> is request 3 and the addition of \<open>A\<close> is
  request 4.
\<close>

theorem removals_before_additions_witness:
  "requests (snd (main (remote_nd1 (Some [federation_of ''nd1'' ''f1''])
       [observed ''nd1'' ''1'', observed ''C'' ''3'']) (Some [requested ''A'']) Present False))
   = [GET clusters_path, GET federation_path, GET member_path,
      DELETE (format_path member_path ''3''),
      POST member_path (Cluster_data (cluster_payload (requested ''A'') ''pw'')),
      GET member_path]
   \<and> is_DELETE (DELETE (format_path member_path ''3''))
   \<and> is_POST (POST member_path (Cluster_data (cluster_payload (requested ''A'') ''pw'')))
   \<and> (3::nat) < 4"
  using removals_before_additions [of
      "requests (snd (main (remote_nd1 (Some [federation_of ''nd1'' ''f1''])
       [observed ''nd1'' ''1'', observed ''C'' ''3'']) (Some [requested ''A'']) Present False))"
      "remote_nd1 (Some [federation_of ''nd1'' ''f1''])
       [observed ''nd1'' ''1'', observed ''C'' ''3'']" "Some [requested ''A'']" False 3 4]
  by (simp add: scen defs Let_def)

lemma paths_differ: "federation_path \<noteq> member_path"
  by (simp add: federation_path_def member_path_def)

lemma main_present:
  assumes "validate (Some cs) Present = None"
    and "cluster_names r = Some (l # rest)"
    and "\<not> not_primary l (federations r) Present"
    and "members r [GET clusters_path, GET federation_path] = Some ms"
  shows "main r (Some cs) Present c =
     present_state r c l (federations r) (Some ms) cs
       \<lparr>existing = Items (Some ms), previous = Items (Some ms), proposed = Empty_dict,
        requests = [GET clusters_path, GET federation_path, GET member_path]\<rparr>"
  using main_reconcile [OF assms(1-3)] assms(4)
  by (simp add: reconcile_def query_existing_def Let_def)

lemma validate_passwords:
  assumes "validate (Some cs) Present = None"
  shows "list_all (\<lambda>c. truthy_str (cluster_password c)) cs"
proof -
  have "validate_loop Present cs = None" using assms by (simp add: validate_def)
  from validate_loop_present [OF this] show ?thesis by (simp add: list_all_iff)
qed

lemma member_posts_concat:
  "filter (\<lambda>(p, d). p = member_path)
     (posts (concat (map (\<lambda>m. (if b then [POST federation_path (Federation_data l)] else [])
                              @ [POST member_path (f m)]) ms)))
   = map (\<lambda>m. (member_path, f m)) ms"
  by (induction ms) (simp_all add: posts_append paths_differ)

lemma deletes_concat_posts:
  "deletes (concat (map (\<lambda>m. (if b then [POST federation_path (Federation_data l)] else [])
                              @ [POST member_path (f m)]) ms)) = []"
  by (induction ms) (simp_all add: deletes_append)

lemma delete_members_eq:
  "delete_members rl \<lparr>pd_DELETE = None, pd_POST = None\<rparr> tr =
     (\<lparr>pd_DELETE = (if rl = [] then None
                     else Some (map (\<lambda>m. format_path member_path (status_memberID m)) rl)),
       pd_POST = None\<rparr>,
      tr @ map (\<lambda>m. DELETE (format_path member_path (status_memberID m))) rl)"
  using delete_members_dict [of rl "\<lparr>pd_DELETE = None, pd_POST = None\<rparr>" tr]
    delete_members_requests [of rl "\<lparr>pd_DELETE = None, pd_POST = None\<rparr>" tr]
  by (cases "delete_members rl \<lparr>pd_DELETE = None, pd_POST = None\<rparr> tr") simp

text \<open>
  A run of state present on validated clusters, in closed form: the recorded dictionary
  and the requests after those of \<open>n\<close>.
\<close>

lemma present_state_valid:
  assumes "list_all (\<lambda>c. truthy_str (cluster_password c)) al"
    and "member_lists l cs ms = (rl, al)"
    and "al \<noteq> [] \<or> rl \<noteq> []"
  shows "present_state r c l fo (Some ms) cs n =
    (let pd = \<lparr>pd_DELETE = (if rl = [] then None
                     else Some (map (\<lambda>m. format_path member_path (status_memberID m)) rl)),
                pd_POST = (if al = [] then None
                     else Some (map (\<lambda>m. cluster_payload m (the (cluster_password m))) al))\<rparr>;
         tr = requests n @ map (\<lambda>m. DELETE (format_path member_path (status_memberID m))) rl
               @ (if c then []
                  else concat (map (\<lambda>m.
                     (if \<not> truthy_list fo
                      then [POST federation_path (Federation_data l)] else [])
                     @ [POST member_path
                          (Cluster_data (cluster_payload m (the (cluster_password m))))]) al))
     in if c then (Exit_json, n\<lparr>existing := Payloads pd, proposed := Payloads pd,
                                 requests := tr\<rparr>)
        else (Exit_json, n\<lparr>existing := Items (members r tr), proposed := Payloads pd,
                            requests := tr @ [GET member_path]\<rparr>))"
proof (cases c)
  case True
  show ?thesis
    unfolding present_state_def using assms(2,3) True
    by (auto simp: Let_def delete_members_eq add_members_valid [OF assms(1)])
next
  case False
  show ?thesis
    unfolding present_state_def using assms(2,3) False
    by (auto simp: Let_def delete_members_eq add_members_valid [OF assms(1)])
qed

lemma present_state_nothing:
  assumes "member_lists l cs ms = ([], [])"
  shows "present_state r c l fo (Some ms) cs n = (Exit_json, n)"
  unfolding present_state_def using assms by simp

text \<open>
  C7. In a run with state present that passes validation and the gate, when the member
  collection holds 0 or 1 entries every requested cluster is scheduled for addition and
  recorded, in order and whatever the hosts of the collection are, and no DELETE is
  issued; outside check mode the member POSTs are those of the requested clusters.
\<close>

theorem bootstrap_adds_all:
  assumes "validate (Some cs) Present = None"
    and "cluster_names r = Some (l # rest)"
    and "\<not> not_primary l (federations r) Present"
    and "members r [GET clusters_path, GET federation_path] = Some ms"
    and "length ms \<le> 1"
  shows "member_lists l cs ms = ([], cs)
    \<and> deletes (requests (snd (main r (Some cs) Present check_mode))) = []
    \<and> (\<not> check_mode \<longrightarrow>
         filter (\<lambda>(p, d). p = member_path)
           (posts (requests (snd (main r (Some cs) Present check_mode))))
         = map (\<lambda>c. (member_path,
                  Cluster_data (cluster_payload c (the (cluster_password c))))) cs)
    \<and> (cs \<noteq> [] \<longrightarrow>
         proposed (snd (main r (Some cs) Present check_mode))
         = Payloads \<lparr>pd_DELETE = None,
             pd_POST = Some (map (\<lambda>c. cluster_payload c (the (cluster_password c))) cs)\<rparr>)"
proof -
  let ?n = "\<lparr>existing = Items (Some ms), previous = Items (Some ms), proposed = Empty_dict,
        requests = [GET clusters_path, GET federation_path, GET member_path]\<rparr>"
  have ml: "member_lists l cs ms = ([], cs)"
    using assms(5) by (simp add: member_lists_def)
  have m: "main r (Some cs) Present check_mode
             = present_state r check_mode l (federations r) (Some ms) cs ?n"
    by (rule main_present [OF assms(1-4)])
  show ?thesis
  proof (cases "cs = []")
    case True
    have e: "main r (Some cs) Present check_mode = (Exit_json, ?n)"
      unfolding m using ml True by (simp add: present_state_nothing)
    show ?thesis unfolding e using ml True by simp
  next
    case False
    then have ne: "cs \<noteq> [] \<or> ([]::member list) \<noteq> []" by simp
    note e = present_state_valid [OF validate_passwords [OF assms(1)] ml ne,
        of r check_mode "federations r" ?n]
    have d: "deletes (requests (snd (main r (Some cs) Present check_mode))) = []"
      unfolding m e
      by (simp add: Let_def deletes_append deletes_concat_posts)
    have p: "\<not> check_mode \<Longrightarrow>
         filter (\<lambda>(p, d). p = member_path)
           (posts (requests (snd (main r (Some cs) Present check_mode))))
         = map (\<lambda>c. (member_path,
                  Cluster_data (cluster_payload c (the (cluster_password c))))) cs"
      unfolding m e
      by (simp add: Let_def posts_append member_posts_concat)
    have q: "proposed (snd (main r (Some cs) Present check_mode))
         = Payloads \<lparr>pd_DELETE = None,
             pd_POST = Some (map (\<lambda>c. cluster_payload c (the (cluster_password c))) cs)\<rparr>"
      unfolding m e using False
      by (simp add: Let_def)
    show ?thesis using ml d p q by blast
  qed
qed


text \<open>
  The observed collection holds the single member \<open>A\<close>, and \<open>A\<close> and \<open>B\<close> are
  requested: both are posted, \<open>A\<close> too.
\<close>

theorem bootstrap_adds_all_witness:
  "validate (Some [requested ''A'', requested ''B'']) Present = None
   \<and> length [observed ''A'' ''2''] \<le> 1
   \<and> member_lists ''nd1'' [requested ''A'', requested ''B''] [observed ''A'' ''2'']
       = ([], [requested ''A'', requested ''B''])
   \<and> deletes (requests (snd (main
         (remote_nd1 (Some [federation_of ''nd1'' ''f1'']) [observed ''A'' ''2''])
         (Some [requested ''A'', requested ''B'']) Present False))) = []
   \<and> filter (\<lambda>(p, d). p = member_path) (posts (requests (snd (main
         (remote_nd1 (Some [federation_of ''nd1'' ''f1'']) [observed ''A'' ''2''])
         (Some [requested ''A'', requested ''B'']) Present False))))
       = [(member_path, Cluster_data (cluster_payload (requested ''A'') ''pw'')),
          (member_path, Cluster_data (cluster_payload (requested ''B'') ''pw''))]"
proof -
  let ?r = "remote_nd1 (Some [federation_of ''nd1'' ''f1'']) [observed ''A'' ''2'']"
  let ?cs = "[requested ''A'', requested ''B'']"
  have h1: "validate (Some ?cs) Present = None" by (simp add: scen defs)
  have h2: "cluster_names ?r = Some (''nd1'' # [])" by (simp add: scen)
  have h3: "\<not> not_primary ''nd1'' (federations ?r) Present" by (simp add: scen defs)
  have h4: "members ?r [GET clusters_path, GET federation_path] = Some [observed ''A'' ''2'']"
    by (simp add: scen defs)
  have h5: "length [observed ''A'' ''2''] \<le> 1" by simp
  have p: "the (cluster_password (requested ''A'')) = ''pw''"
    "the (cluster_password (requested ''B'')) = ''pw''" by (simp_all add: requested_def)
  show ?thesis
    using bootstrap_adds_all [OF h1 h2 h3 h4 h5, of False] h1 p by simp
qed

lemma user_specified_iff:
  "user_specified cs m \<longleftrightarrow> Some (spec_host m) \<in> cluster_hostname ` set cs"
  by (auto simp: user_specified_def list_ex_iff)

lemma found_iff:
  "found ms c \<longleftrightarrow> cluster_hostname c \<in> (\<lambda>m. Some (spec_host m)) ` set ms"
  unfolding found_def list_ex_iff image_iff by (metis)

text \<open>
  C8. When the member collection holds one entry for the local cluster and one entry for
  each requested cluster, as it does after a first run that succeeded, a run with state
  present for the same clusters schedules no removal and no addition, issues no request
  besides its three reads, and exits with the observed members unchanged.
\<close>

theorem second_present_plan_empty:
  assumes "validate (Some cs) Present = None"
    and "cluster_names r = Some (l # rest)"
    and "\<not> not_primary l (federations r) Present"
    and "members r [GET clusters_path, GET federation_path] = Some ms"
    and "mset (map (\<lambda>m. Some (spec_host m)) ms) = mset (Some l # map cluster_hostname cs)"
  shows "member_lists l cs ms = ([], [])
    \<and> main r (Some cs) Present check_mode =
        (Exit_json,
         \<lparr>existing = Items (Some ms), previous = Items (Some ms), proposed = Empty_dict,
          requests = [GET clusters_path, GET federation_path, GET member_path]\<rparr>)"
proof -
  have hosts: "(\<lambda>m. Some (spec_host m)) ` set ms = insert (Some l) (cluster_hostname ` set cs)"
    using mset_eq_setD [OF assms(5)] by simp
  have len: "length ms = Suc (length cs)"
    using mset_eq_length [OF assms(5)] by simp
  have ml: "member_lists l cs ms = ([], [])"
  proof (cases "length ms \<le> 1")
    case True
    then have "cs = []" using len by simp
    then show ?thesis using True by (simp add: member_lists_def)
  next
    case False
    have "filter (\<lambda>m. spec_host m \<noteq> l)
            (takeWhile (\<lambda>m. spec_host m = l \<or> \<not> user_specified cs m) ms) = []"
      unfolding filter_empty_conv
    proof (intro ballI notI)
      fix m
      assume m: "m \<in> set (takeWhile (\<lambda>m. spec_host m = l \<or> \<not> user_specified cs m) ms)"
        and nl: "spec_host m \<noteq> l"
      have "m \<in> set ms" using m by (rule set_takeWhileD [THEN conjunct1])
      then have "Some (spec_host m) \<in> insert (Some l) (cluster_hostname ` set cs)"
        using hosts by blast
      then have "user_specified cs m" using nl by (simp add: user_specified_iff)
      moreover have "spec_host m = l \<or> \<not> user_specified cs m"
        using m by (rule set_takeWhileD [THEN conjunct2])
      ultimately show False using nl by simp
    qed
    moreover have "filter (\<lambda>c. \<not> found ms c) cs = []"
      unfolding filter_empty_conv
    proof (intro ballI notI)
      fix c assume "c \<in> set cs" and nf: "\<not> found ms c"
      then have "cluster_hostname c \<in> (\<lambda>m. Some (spec_host m)) ` set ms"
        using hosts by blast
      then show False using nf by (simp add: found_iff)
    qed
    ultimately show ?thesis
      using False by (simp add: member_lists_def remove_loop_eq add_loop_eq)
  qed
  show ?thesis
    using ml main_present [OF assms(1-4), of check_mode]
    by (simp add: present_state_nothing)
qed

text \<open>The second run for \<open>A\<close> and \<open>B\<close> against \<open>nd1\<close>, \<open>B\<close>, \<open>A\<close>.\<close>

theorem second_present_plan_empty_witness:
  "validate (Some [requested ''A'', requested ''B'']) Present = None
   \<and> mset (map (\<lambda>m. Some (spec_host m))
        [observed ''nd1'' ''1'', observed ''B'' ''3'', observed ''A'' ''2''])
     = mset (Some ''nd1'' # map cluster_hostname [requested ''A'', requested ''B''])
   \<and> member_lists ''nd1'' [requested ''A'', requested ''B'']
        [observed ''nd1'' ''1'', observed ''B'' ''3'', observed ''A'' ''2''] = ([], [])
   \<and> requests (snd (main
         (remote_nd1 (Some [federation_of ''nd1'' ''f1''])
            [observed ''nd1'' ''1'', observed ''B'' ''3'', observed ''A'' ''2''])
         (Some [requested ''A'', requested ''B'']) Present False))
       = [GET clusters_path, GET federation_path, GET member_path]"
proof -
  let ?ms = "[observed ''nd1'' ''1'', observed ''B'' ''3'', observed ''A'' ''2'']"
  let ?r = "remote_nd1 (Some [federation_of ''nd1'' ''f1'']) ?ms"
  let ?cs = "[requested ''A'', requested ''B'']"
  have h1: "validate (Some ?cs) Present = None" by (simp add: scen defs)
  have h2: "cluster_names ?r = Some (''nd1'' # [])" by (simp add: scen)
  have h3: "\<not> not_primary ''nd1'' (federations ?r) Present" by (simp add: scen defs)
  have h4: "members ?r [GET clusters_path, GET federation_path] = Some ?ms"
    by (simp add: scen defs)
  have h5: "mset (map (\<lambda>m. Some (spec_host m)) ?ms)
     = mset (Some ''nd1'' # map cluster_hostname ?cs)"
    by (simp add: scen)
  show ?thesis
    using second_present_plan_empty [OF h1 h2 h3 h4 h5, of False] h1 h5 by simp
qed

section \<open>The primary gate\<close>

lemma validate_absent: "validate clusters Absent = None"
proof -
  have "validate_loop Absent cs = None" for cs by (induction cs) simp_all
  then show ?thesis by (simp add: validate_def split: option.splits)
qed

text \<open>
  C5. Let a federation exist whose entries all carry a name other than the local
  cluster's, and let the request pass parameter validation (which comes before any remote
  call). Then with state present or absent the run fails with the not-primary message
  after its first two reads, so before any POST or DELETE, and with state query it exits
  normally after its three reads.
\<close>

theorem not_primary_gate:
  assumes "validate clusters st = None"
    and "cluster_names r = Some (l # rest)"
    and "federations r = Some fs" and "fs \<noteq> []"
    and "\<forall>f\<in>set fs. spec_name f \<noteq> l"
  shows "(st \<noteq> Query \<longrightarrow>
           main r clusters st check_mode =
             (Fail_json not_primary_msg,
              nd_init\<lparr>requests := [GET clusters_path, GET federation_path]\<rparr>))
       \<and> (st = Query \<longrightarrow>
           fst (main r clusters st check_mode) = Exit_json
           \<and> requests (snd (main r clusters st check_mode))
               = [GET clusters_path, GET federation_path, GET member_path])"
proof -
  have "federation_info l fs = None"
    using assms(5) by (simp add: federation_info_def find_None_iff)
  then have np: "not_primary l (federations r) st \<longleftrightarrow> st \<noteq> Query"
    using assms(3,4) by (simp add: not_primary_def)
  show ?thesis
  proof (cases "st = Query")
    case True
    then have "\<not> not_primary l (federations r) st" using np by simp
    from main_reconcile [OF assms(1,2) this, of check_mode] True
    show ?thesis by (simp add: reconcile_def Let_def)
  next
    case False
    then show ?thesis
      using assms(1,2) np by (simp add: main_def)
  qed
qed

text \<open>
  The local cluster is \<open>nd1\<close> and the only federation is named \<open>nd2\<close>: the three
  states in turn.
\<close>

theorem not_primary_gate_witness:
  "validate (Some [requested ''A'']) Present = None
   \<and> main (remote_nd1 (Some [federation_of ''nd2'' ''f1''])
         [observed ''nd2'' ''1'', observed ''C'' ''3''])
       (Some [requested ''A'']) Present False
     = (Fail_json not_primary_msg,
        nd_init\<lparr>requests := [GET clusters_path, GET federation_path]\<rparr>)
   \<and> main (remote_nd1 (Some [federation_of ''nd2'' ''f1''])
         [observed ''nd2'' ''1'', observed ''C'' ''3''])
       None Absent False
     = (Fail_json not_primary_msg,
        nd_init\<lparr>requests := [GET clusters_path, GET federation_path]\<rparr>)
   \<and> fst (main (remote_nd1 (Some [federation_of ''nd2'' ''f1''])
         [observed ''nd2'' ''1'', observed ''C'' ''3''])
       (Some [requested ''C'']) Query False) = Exit_json"
proof -
  let ?r = "remote_nd1 (Some [federation_of ''nd2'' ''f1''])
         [observed ''nd2'' ''1'', observed ''C'' ''3'']"
  have h1: "validate (Some [requested ''A'']) Present = None" by (simp add: scen defs)
  have h1a: "validate None Absent = None" by (simp add: defs)
  have h1q: "validate (Some [requested ''C'']) Query = None" by (simp add: scen defs)
  have h2: "cluster_names ?r = Some (''nd1'' # [])" by (simp add: scen)
  have h3: "federations ?r = Some [federation_of ''nd2'' ''f1'']" by (simp add: scen)
  have h4: "[federation_of ''nd2'' ''f1''] \<noteq> []" by simp
  have h5: "\<forall>f\<in>set [federation_of ''nd2'' ''f1'']. spec_name f \<noteq> ''nd1''"
    by (simp add: scen)
  show ?thesis
    using not_primary_gate [OF h1 h2 h3 h4 h5, of False]
      not_primary_gate [OF h1a h2 h3 h4 h5, of False]
      not_primary_gate [OF h1q h2 h3 h4 h5, of False] h1
    by simp
qed

section \<open>State absent\<close>

text \<open>
  A run with state absent outside check mode that passes the gate, on a non-empty member
  collection, in closed form: the three reads, one DELETE for each observed member whose
  host is not the local cluster's name, the second read of the member collection, and the
  DELETE of the local cluster's federation when the second read holds exactly one entry.
\<close>

lemma absent_requests:
  assumes "cluster_names r = Some (l # rest)"
    and "federations r = Some fs"
    and "\<not> not_primary l (Some fs) Absent"
    and "members r [GET clusters_path, GET federation_path] = Some ms"
    and "ms \<noteq> []"
    and "members r (absent_loop l ms [GET clusters_path, GET federation_path, GET member_path])
           = Some ms'"
  shows "main r clusters Absent False =
    (Exit_json,
     \<lparr>existing = Empty_dict, previous = Items (Some ms), proposed = Empty_dict,
      requests = [GET clusters_path, GET federation_path, GET member_path]
        @ map (\<lambda>m. DELETE (format_path member_path (status_memberID m)))
            (filter (\<lambda>m. spec_host m \<noteq> l) ms)
        @ [GET member_path]
        @ (case federation_info l fs of
             None \<Rightarrow> []
           | Some fi \<Rightarrow>
               if length ms' = 1
               then [DELETE (format_path federation_path (status_federationID fi))]
               else [])\<rparr>)"
proof -
  have np: "\<not> not_primary l (federations r) Absent" using assms(2,3) by simp
  have m: "main r clusters Absent False =
      reconcile r clusters Absent False l (federations r) [GET clusters_path, GET federation_path]"
    by (rule main_reconcile [OF validate_absent assms(1) np])
  show ?thesis
    unfolding m reconcile_def absent_state_def remove_federation_def query_existing_def
    using assms(2,4,5,6)
    by (simp add: Let_def absent_loop_eq split: option.splits)
qed

section \<open>Runs in which the code departs from its description\<close>

text \<open>
  C1. The desired members are \<open>A\<close> and \<open>B\<close>, the observed ones \<open>nd1\<close> (local),
  \<open>A\<close> and \<open>C\<close>. \<open>member_exists\<close> is set at \<open>A\<close> and never reset, so \<open>C\<close>, which
  is neither local nor desired, is not scheduled for removal: the run posts \<open>B\<close> and
  issues no DELETE.
\<close>

theorem present_keeps_unrequested_member:
  "member_lists ''nd1'' [requested ''A'', requested ''B'']
      [observed ''nd1'' ''1'', observed ''A'' ''2'', observed ''C'' ''3'']
     = ([], [requested ''B''])
   \<and> requests (snd (main
        (remote_nd1 (Some [federation_of ''nd1'' ''f1''])
           [observed ''nd1'' ''1'', observed ''A'' ''2'', observed ''C'' ''3''])
        (Some [requested ''A'', requested ''B'']) Present False))
     = [GET clusters_path, GET federation_path, GET member_path,
        POST member_path (Cluster_data (cluster_payload (requested ''B'') ''pw'')),
        GET member_path]"
  by (simp add: scen defs Let_def)

text \<open>
  C2. In check mode, with \<open>A\<close> desired and \<open>nd1\<close> (local) and \<open>C\<close> observed, the
  removal of \<open>C\<close> is scheduled and its DELETE request is issued: the request at line 230
  is not under the check-mode test that guards the requests at lines 189, 195, 260 and 261.
\<close>

theorem check_mode_present_deletes:
  "requests (snd (main
        (remote_nd1 (Some [federation_of ''nd1'' ''f1''])
           [observed ''nd1'' ''1'', observed ''C'' ''3''])
        (Some [requested ''A'']) Present True))
     = [GET clusters_path, GET federation_path, GET member_path,
        DELETE (format_path member_path ''3'')]"
  by (simp add: scen defs Let_def)

text \<open>
  C4. No federation exists, no member is observed, and \<open>A\<close> and \<open>B\<close> are desired. The
  creation of the federation stands inside the loop over the additions and
  \<open>federation_obj\<close> is not read again, so the federation is posted before each of the
  two member POSTs, twice in all.
\<close>

theorem federation_created_per_addition:
  "requests (snd (main (remote_nd1 (Some []) [])
        (Some [requested ''A'', requested ''B'']) Present False))
     = [GET clusters_path, GET federation_path, GET member_path,
        POST federation_path (Federation_data ''nd1''),
        POST member_path (Cluster_data (cluster_payload (requested ''A'') ''pw'')),
        POST federation_path (Federation_data ''nd1''),
        POST member_path (Cluster_data (cluster_payload (requested ''B'') ''pw'')),
        GET member_path]"
  by (simp add: scen defs Let_def)

text \<open>
  C9. A query for \<open>A\<close> and \<open>C\<close>, both observed: each hit is assigned to
  \<open>nd.existing\<close>, so the entry of \<open>C\<close> replaces that of \<open>A\<close> and is the whole result.
\<close>

theorem query_keeps_last_match:
  "main (remote_nd1 (Some [federation_of ''nd1'' ''f1''])
         [observed ''nd1'' ''1'', observed ''A'' ''2'', observed ''C'' ''3''])
       (Some [requested ''A'', requested ''C'']) Query False
   = (Exit_json,
      \<lparr>existing = Item (observed ''C'' ''3''), previous = Item (observed ''C'' ''3''),
       proposed = Empty_dict,
       requests = [GET clusters_path, GET federation_path, GET member_path]\<rparr>)"
  by (simp add: scen defs Let_def)

text \<open>
  C3. The federation of the local cluster \<open>nd1\<close> exists and the observed members are
  \<open>A\<close> and \<open>C\<close>, neither of them local. Outside check mode both are removed, and the
  member collection read again after the removals holds no entry. The test at line 192
  is \<open>== 1\<close>, so with a count of 0 the federation is not deleted: the run ends
  after the second read, against the comment at line 191 (the federation is removed
  when there are no more members).
\<close>

theorem absent_keeps_empty_federation:
  "members (remote_nd1 (Some [federation_of ''nd1'' ''f1''])
         [observed ''A'' ''2'', observed ''C'' ''3''])
       [GET clusters_path, GET federation_path, GET member_path,
        DELETE (format_path member_path ''2''), DELETE (format_path member_path ''3'')]
     = Some []
   \<and> main (remote_nd1 (Some [federation_of ''nd1'' ''f1''])
         [observed ''A'' ''2'', observed ''C'' ''3'']) None Absent False
     = (Exit_json,
        \<lparr>existing = Empty_dict,
         previous = Items (Some [observed ''A'' ''2'', observed ''C'' ''3'']),
         proposed = Empty_dict,
         requests = [GET clusters_path, GET federation_path, GET member_path,
           DELETE (format_path member_path ''2''), DELETE (format_path member_path ''3''),
           GET member_path]\<rparr>)"
  by (simp add: scen defs Let_def)

end
